theory Spec2Isabelle
  imports Main
begin

section \<open>Shared vocabulary of the three scripts\<close>

text \<open>
  The scripts talk to the outside world through \<^verbatim>\<open>requests.get\<close>/\<^verbatim>\<open>requests.post\<close>,
  \<^verbatim>\<open>time.sleep\<close> and \<^verbatim>\<open>open(..., 'wb')\<close>. Every answer of the outside world is an
  explicit argument of the model, every Python exception is a value of \<open>error\<close>.
  Writing to the standard output is taken to succeed.
\<close>

datatype error =
    RequestException
  | JSONDecodeError
  | ValueError
  | OverflowError
  | TypeError
  | AttributeError
  | OSError

text \<open>
  An HTTP call either raises (\<open>Raised\<close>: no connection, broken transfer) or returns a
  response with its \<^verbatim>\<open>status_code\<close> and body. \<^verbatim>\<open>response.json()\<close> either raises
  (\<open>NotJson\<close>) or yields the decoded fields the script reads.
\<close>

datatype 'a http = Raised | Response int 'a

datatype 'a json = NotJson | Json 'a

text \<open>\<^verbatim>\<open>d.get(key, default)\<close> on a key that may be absent.\<close>

definition dict_get :: "'a option \<Rightarrow> 'a \<Rightarrow> 'a" where
  "dict_get v d = (case v of None \<Rightarrow> d | Some x \<Rightarrow> x)"

text \<open>Python truthiness of a value that is \<^verbatim>\<open>None\<close> or a string.\<close>

definition truthy :: "string option \<Rightarrow> bool" where
  "truthy v = (case v of None \<Rightarrow> False | Some s \<Rightarrow> s \<noteq> [])"

text \<open>
  \<^verbatim>\<open>with open(output_path, 'wb') as f: f.write(content)\<close>. The file at the output path is
  \<open>None\<close> when it does not exist. Opening for writing creates or truncates it; the
  write can fail after some bytes went out (full disk, I/O error), and the \<^verbatim>\<open>with\<close>
  block closes the handle but removes nothing.
\<close>

datatype disk = DiskOk | OpenFails | WriteFails nat

definition write_file :: "disk \<Rightarrow> string \<Rightarrow> string option \<Rightarrow> error option \<times> string option" where
  "write_file d content f =
     (case d of
        DiskOk \<Rightarrow> (None, Some content)
      | OpenFails \<Rightarrow> (Some OSError, f)
      | WriteFails k \<Rightarrow> (Some OSError, Some (take k content)))"

text \<open>
  \<^verbatim>\<open>time.sleep(secs)\<close> with an integer: \<^verbatim>\<open>ValueError\<close> for a negative duration,
  \<^verbatim>\<open>OverflowError\<close> for one that does not fit the 64-bit nanoseconds of the clock (from
  9223372037 seconds on). Any other duration is turned into a deadline on the monotonic
  clock of the platform, and \<^verbatim>\<open>OSError\<close> is raised when that deadline is out of the
  clock's range, which depends on how long the machine has been up: \<open>clock_ok\<close> is the
  platform's answer at this call. \<open>None\<close>: the sleep returns.
\<close>

definition time_sleep :: "bool \<Rightarrow> int \<Rightarrow> error option" where
  "time_sleep clock_ok secs =
     (if secs < 0 then Some ValueError
      else if 9223372036 < secs then Some OverflowError
      else if clock_ok then None
      else Some OSError)"

text \<open>
  What a run has done to the world so far: the file at the output path, the number of
  status queries issued (\<^verbatim>\<open>poll_count\<close> of minMax_hailuo.py; in piapi_kling.py, which
  keeps no counter, the number of GETs of the status URL) and the seconds spent in
  \<^verbatim>\<open>time.sleep\<close>.
\<close>

record world =
  out_file :: "string option"
  poll_count :: nat
  slept :: int

text \<open>
  A \<^verbatim>\<open>while True\<close> loop is run against the finite list of replies the server has given so
  far, one reply per status query. \<open>Polling\<close>: every reply is consumed and the loop is
  about to query again; \<open>Exited x\<close>: the script has left the loop through exit \<open>x\<close>.
\<close>

datatype 'x run = Polling | Exited 'x

section \<open>minMax_hailuo.py\<close>

text \<open>The fields of the status reply; \<open>mm_rest\<close> is whatever else the JSON carries.\<close>

record query_data =
  mm_status :: "string option"
  mm_file_id :: "string option"
  mm_rest :: string

text \<open>\<^verbatim>\<open>query_video_generation\<close>: returns \<^verbatim>\<open>(file_id, status)\<close>.\<close>

definition query_video_generation ::
  "query_data json http \<Rightarrow> error + (string option \<times> string)" where
  "query_video_generation r =
     (case r of
        Raised \<Rightarrow> Inl RequestException
      | Response c b \<Rightarrow>
          if c \<noteq> 200 then Inr (None, ''Error'')
          else (case b of
                  NotJson \<Rightarrow> Inl JSONDecodeError
                | Json d \<Rightarrow>
                    (let status = dict_get (mm_status d) '''' in
                     if status = ''Success''
                     then Inr (Some (dict_get (mm_file_id d) ''''), ''Success'')
                     else Inr (None, status))))"

text \<open>
  \<^verbatim>\<open>fetch_video_result\<close>: one GET resolves the file id into a download URL
  (\<^verbatim>\<open>response_data.get('file', {}).get('download_url', '')\<close>, here the body of \<open>retrieve\<close>),
  a second GET downloads the whole body into memory, then the body is written to the
  output path. It returns \<^verbatim>\<open>True\<close> or \<^verbatim>\<open>False\<close>, or raises; the second component is the
  file at the output path afterwards.
\<close>

record fetch_env =
  retrieve :: "string option json http"
  download :: "string http"
  disk :: disk

definition fetch_video_result ::
  "fetch_env \<Rightarrow> string \<Rightarrow> string option \<Rightarrow> (error + bool) \<times> string option" where
  "fetch_video_result env file_id f =
     (case retrieve env of
        Raised \<Rightarrow> (Inl RequestException, f)
      | Response c b \<Rightarrow>
          if c \<noteq> 200 then (Inr False, f)
          else (case b of
                  NotJson \<Rightarrow> (Inl JSONDecodeError, f)
                | Json u \<Rightarrow>
                    (let download_url = dict_get u '''' in
                     if download_url = [] then (Inr False, f)
                     else (case download env of
                             Raised \<Rightarrow> (Inl RequestException, f)
                           | Response c' content \<Rightarrow>
                               if c' \<noteq> 200 then (Inr False, f)
                               else (case write_file (disk env) content f of
                                       (Some e, f') \<Rightarrow> (Inl e, f')
                                     | (None, f') \<Rightarrow> (Inr True, f'))))))"

text \<open>
  The ways \<^verbatim>\<open>main\<close> ends, each named after what is printed on that path:
  \<open>FetchFailed\<close> is the \<^verbatim>\<open>break\<close> of line 231 after \<^verbatim>\<open>fetch_video_result\<close> returned
  \<^verbatim>\<open>False\<close>, \<open>GenerationFailed status\<close> the \<^verbatim>\<open>return\<close> of line 236 after
  "Status: ..." and "Generation failed after ...", \<open>Uncaught e\<close> an exception that
  leaves \<^verbatim>\<open>main\<close>.
\<close>

datatype mm_exit =
    NoApiKey
  | NoImage
  | SubmitHttpError int
  | SubmitNotJson
  | NoTaskId
  | Saved
  | FetchFailed
  | GenerationFailed string
  | Uncaught error

text \<open>
  The \<^verbatim>\<open>while True\<close> loop of \<^verbatim>\<open>main\<close> (lines 208-239). \<open>clock n\<close> is the answer of the
  platform's clock to the sleep of the tick that issues the \<open>n\<close>-th status query.
\<close>

fun mm_poll ::
  "(nat \<Rightarrow> bool) \<Rightarrow> int \<Rightarrow> fetch_env \<Rightarrow> query_data json http list \<Rightarrow> world \<Rightarrow>
     mm_exit run \<times> world" where
  "mm_poll clock poll_interval env [] w = (Polling, w)"
| "mm_poll clock poll_interval env (r # rs) w =
     (let w1 = w\<lparr>poll_count := poll_count w + 1\<rparr> in
      case query_video_generation r of
        Inl e \<Rightarrow> (Exited (Uncaught e), w1)
      | Inr (file_id, status) \<Rightarrow>
          if status = ''Success'' \<and> truthy file_id then
            (case fetch_video_result env (dict_get file_id '''') (out_file w1) of
               (Inl e, f') \<Rightarrow> (Exited (Uncaught e), w1\<lparr>out_file := f'\<rparr>)
             | (Inr ok, f') \<Rightarrow> (Exited (if ok then Saved else FetchFailed), w1\<lparr>out_file := f'\<rparr>))
          else if status \<in> set [''Fail'', ''Error'', ''Unknown''] then
            (Exited (GenerationFailed status), w1)
          else (case time_sleep (clock (poll_count w1)) poll_interval of
                  Some e \<Rightarrow> (Exited (Uncaught e), w1)
                | None \<Rightarrow>
                    mm_poll clock poll_interval env rs (w1\<lparr>slept := slept w1 + poll_interval\<rparr>)))"

text \<open>
  \<^verbatim>\<open>main\<close> from the credential check on. The configuration and the answers of the outside
  world are gathered in one record: the key (\<^verbatim>\<open>args.api_key or os.environ.get(...)\<close>),
  whether the image path is a file, the poll interval (any integer: \<^verbatim>\<open>type=int\<close>), the
  answers of the platform's clock, the answer to the POST with the \<^verbatim>\<open>task_id\<close> of its
  body, the answers to the status queries and to the fetch. Reading the image and
  creating the output directory are taken to succeed; what is printed is kept only as
  far as it tells the exits apart.
\<close>

record mm_run =
  mm_api_key :: "string option"
  mm_image_is_file :: bool
  mm_poll_interval :: int
  mm_clock :: "nat \<Rightarrow> bool"
  mm_submit :: "string option json http"
  mm_replies :: "query_data json http list"
  mm_fetch :: fetch_env

definition mm_main :: "mm_run \<Rightarrow> world \<Rightarrow> mm_exit run \<times> world" where
  "mm_main x w =
     (if \<not> truthy (mm_api_key x) then (Exited NoApiKey, w)
      else if \<not> mm_image_is_file x then (Exited NoImage, w)
      else (case mm_submit x of
              Raised \<Rightarrow> (Exited (Uncaught RequestException), w)
            | Response c b \<Rightarrow>
                if c \<noteq> 200 then (Exited (SubmitHttpError c), w)
                else (case b of
                        NotJson \<Rightarrow> (Exited SubmitNotJson, w)
                      | Json task_id \<Rightarrow>
                          if \<not> truthy task_id then (Exited NoTaskId, w)
                          else mm_poll (mm_clock x) (mm_poll_interval x) (mm_fetch x)
                                 (mm_replies x) w)))"

section \<open>piapi_kling.py\<close>

text \<open>
  \<^verbatim>\<open>str.lower()\<close>, on the ASCII letters. A status with any other letter equals neither
  of the words the loop compares it with, before or after \<^verbatim>\<open>lower()\<close>, so the tests of the
  loop come out as in Python.
\<close>

definition lower_char :: "char \<Rightarrow> char" where
  "lower_char c =
     (case map_of (zip ''ABCDEFGHIJKLMNOPQRSTUVWXYZ'' ''abcdefghijklmnopqrstuvwxyz'') c of
        None \<Rightarrow> c
      | Some l \<Rightarrow> l)"

definition lower :: "string \<Rightarrow> string" where
  "lower s = map lower_char s"

text \<open>
  The loop goes through \<^verbatim>\<open>data.logs\<close>, whatever JSON value the reply holds there. A
  decoded JSON value is \<^verbatim>\<open>None\<close>, a truth value, a number, a string, a list or a
  dictionary (its items in order). The scripts test a number only for being zero, so an
  integer stands for it.
\<close>

datatype py =
    PNone
  | PBool bool
  | PNum int
  | PStr string
  | PList "py list"
  | PDict "(string \<times> py) list"

text \<open>Truthiness (\<^verbatim>\<open>if logs:\<close>).\<close>

definition py_truthy :: "py \<Rightarrow> bool" where
  "py_truthy v =
     (case v of
        PNone \<Rightarrow> False
      | PBool b \<Rightarrow> b
      | PNum n \<Rightarrow> n \<noteq> 0
      | PStr s \<Rightarrow> s \<noteq> []
      | PList xs \<Rightarrow> xs \<noteq> []
      | PDict kvs \<Rightarrow> kvs \<noteq> [])"

text \<open>
  What a \<^verbatim>\<open>for\<close> loop goes through: the items of a list, the characters of a string (here
  its bytes, one-character strings either way, which no test of the loops tells apart),
  the keys of a dictionary; anything else is not iterable.
\<close>

definition py_iter :: "py \<Rightarrow> error + py list" where
  "py_iter v =
     (case v of
        PList xs \<Rightarrow> Inr xs
      | PStr s \<Rightarrow> Inr (map (\<lambda>c. PStr [c]) s)
      | PDict kvs \<Rightarrow> Inr (map (\<lambda>kv. PStr (fst kv)) kvs)
      | _ \<Rightarrow> Inl TypeError)"

text \<open>\<^verbatim>\<open>k in s\<close> on two strings: \<open>k\<close> occurs in \<open>s\<close>.\<close>

fun is_substring :: "string \<Rightarrow> string \<Rightarrow> bool" where
  "is_substring k [] = (k = [])"
| "is_substring k (c # s) = (take (length k) (c # s) = k \<or> is_substring k s)"

text \<open>
  \<^verbatim>\<open>k in v\<close> for a string \<open>k\<close>: a substring test on a string, a membership test on a
  list, a key test on a dictionary, \<^verbatim>\<open>TypeError\<close> on anything else.
\<close>

definition py_contains :: "string \<Rightarrow> py \<Rightarrow> error + bool" where
  "py_contains k v =
     (case v of
        PStr s \<Rightarrow> Inr (is_substring k s)
      | PList xs \<Rightarrow> Inr (PStr k \<in> set xs)
      | PDict kvs \<Rightarrow> Inr (k \<in> set (map fst kvs))
      | _ \<Rightarrow> Inl TypeError)"

text \<open>\<^verbatim>\<open>v.get(k, d)\<close>: only a dictionary has the method.\<close>

definition py_get :: "py \<Rightarrow> string \<Rightarrow> py \<Rightarrow> error + py" where
  "py_get v k d =
     (case v of
        PDict kvs \<Rightarrow> Inr (case map_of kvs k of None \<Rightarrow> d | Some x \<Rightarrow> x)
      | _ \<Rightarrow> Inl AttributeError)"

text \<open>
  Lines 237-240, the last branch of the loop:
  \<^verbatim>\<open>for log in data.get("logs", []): if "progress" in log: progress = log.get(...)\<close>.
  The result is the exception raised, if any.
\<close>

fun progress_loop :: "py list \<Rightarrow> error option" where
  "progress_loop [] = None"
| "progress_loop (log # logs) =
     (case py_contains ''progress'' log of
        Inl e \<Rightarrow> Some e
      | Inr found \<Rightarrow>
          if found then
            (case py_get log ''progress'' (PStr ''unknown'') of
               Inl e \<Rightarrow> Some e
             | Inr progress \<Rightarrow> progress_loop logs)
          else progress_loop logs)"

definition logs_progress :: "py option \<Rightarrow> error option" where
  "logs_progress logs =
     (case py_iter (dict_get logs (PList [])) of
        Inl e \<Rightarrow> Some e
      | Inr xs \<Rightarrow> progress_loop xs)"

text \<open>
  Lines 224-228, in the branch of a failed task:
  \<^verbatim>\<open>if logs: for i, log in enumerate(logs): print(json.dumps(log))\<close>.
\<close>

definition logs_print :: "py option \<Rightarrow> error option" where
  "logs_print logs =
     (let v = dict_get logs (PList []) in
      if py_truthy v then (case py_iter v of Inl e \<Rightarrow> Some e | Inr xs \<Rightarrow> None) else None)"

text \<open>
  The fields read from a reply of the task endpoint: \<^verbatim>\<open>code\<close>, \<^verbatim>\<open>data.status\<close>, the four
  fields of \<^verbatim>\<open>data.error\<close>, \<^verbatim>\<open>data.logs\<close> and \<^verbatim>\<open>data.output.video_url\<close>.
\<close>

record task_data =
  pi_code :: "int option"
  pi_status :: "string option"
  pi_error_code :: "string option"
  pi_error_message :: "string option"
  pi_error_raw :: "string option"
  pi_error_detail :: "string option"
  pi_logs :: "py option"
  pi_video_url :: "string option"

record submit_data =
  sub_code :: "int option"
  sub_task_id :: "string option"

text \<open>
  The exits of \<^verbatim>\<open>main\<close>. \<open>TaskFailed code message raw detail\<close> is the \<^verbatim>\<open>return\<close> of line
  234 with the four strings printed on the way; \<open>Caught e\<close> is the handler of line 275,
  which every exception raised from line 138 on ends in.
\<close>

datatype pi_exit =
    PiNoApiKey
  | PiNoImage
  | UploadNotImplemented
  | PiSubmitHttpError int
  | SubmitApiError "int option"
  | PiNoTaskId
  | TaskFailed string string string string
  | FinalHttpError int
  | NoVideoUrl
  | DownloadHttpError int
  | PiSaved
  | Caught error

record pi_env =
  pi_final :: "task_data json http"
  pi_download :: "string http"
  pi_disk :: disk

text \<open>After the loop (lines 243-273): one more GET of the status URL, then the download.\<close>

definition pi_finish :: "pi_env \<Rightarrow> world \<Rightarrow> pi_exit run \<times> world" where
  "pi_finish env w =
     (let w1 = w\<lparr>poll_count := poll_count w + 1\<rparr> in
      case pi_final env of
        Raised \<Rightarrow> (Exited (Caught RequestException), w1)
      | Response c b \<Rightarrow>
          if c \<noteq> 200 then (Exited (FinalHttpError c), w1)
          else (case b of
                  NotJson \<Rightarrow> (Exited (Caught JSONDecodeError), w1)
                | Json d \<Rightarrow>
                    if \<not> truthy (pi_video_url d) then (Exited NoVideoUrl, w1)
                    else (case pi_download env of
                            Raised \<Rightarrow> (Exited (Caught RequestException), w1)
                          | Response c' content \<Rightarrow>
                              if c' \<noteq> 200 then (Exited (DownloadHttpError c'), w1)
                              else (case write_file (pi_disk env) content (out_file w1) of
                                      (Some e, f') \<Rightarrow> (Exited (Caught e), w1\<lparr>out_file := f'\<rparr>)
                                    | (None, f') \<Rightarrow> (Exited PiSaved, w1\<lparr>out_file := f'\<rparr>)))))"

text \<open>
  The \<^verbatim>\<open>while True\<close> loop of \<^verbatim>\<open>main\<close> (lines 176-241). Each tick starts with
  \<^verbatim>\<open>time.sleep(5)\<close>, a deadline five seconds ahead, which is taken to be in the range of
  the clock.
\<close>

fun pi_poll :: "pi_env \<Rightarrow> task_data json http list \<Rightarrow> world \<Rightarrow> pi_exit run \<times> world" where
  "pi_poll env [] w = (Polling, w)"
| "pi_poll env (r # rs) w =
     (let w1 = w\<lparr>poll_count := poll_count w + 1, slept := slept w + 5\<rparr> in
      case r of
        Raised \<Rightarrow> (Exited (Caught RequestException), w1)
      | Response c b \<Rightarrow>
          if c \<noteq> 200 then pi_poll env rs w1
          else (case b of
                  NotJson \<Rightarrow> (Exited (Caught JSONDecodeError), w1)
                | Json d \<Rightarrow>
                    if pi_code d \<noteq> Some 200 then pi_poll env rs w1
                    else (let task_status = lower (dict_get (pi_status d) '''') in
                          if task_status = ''completed'' \<or> task_status = ''Completed''
                          then pi_finish env w1
                          else if task_status = ''failed'' then
                            (case logs_print (pi_logs d) of
                               Some e \<Rightarrow> (Exited (Caught e), w1)
                             | None \<Rightarrow>
                                 (Exited (TaskFailed
                                    (dict_get (pi_error_code d) ''No error code'')
                                    (dict_get (pi_error_message d) ''No error message'')
                                    (dict_get (pi_error_raw d) ''No raw error message'')
                                    (dict_get (pi_error_detail d) ''No error details'')), w1))
                          else (case logs_progress (pi_logs d) of
                                  Some e \<Rightarrow> (Exited (Caught e), w1)
                                | None \<Rightarrow> pi_poll env rs w1))))"

text \<open>
  \<^verbatim>\<open>main\<close> from the credential check on. \<open>pi_image\<close> is \<open>None\<close> when \<^verbatim>\<open>--image_url\<close> was
  given, and otherwise tells whether the \<^verbatim>\<open>--image\<close> path is a file.
\<close>

record pi_run =
  pi_api_key :: "string option"
  pi_image :: "bool option"
  pi_submit :: "submit_data json http"
  pi_replies :: "task_data json http list"
  pi_rest :: pi_env

definition pi_main :: "pi_run \<Rightarrow> world \<Rightarrow> pi_exit run \<times> world" where
  "pi_main x w =
     (if \<not> truthy (pi_api_key x) then (Exited PiNoApiKey, w)
      else (case pi_image x of
              Some is_file \<Rightarrow> (Exited (if is_file then UploadNotImplemented else PiNoImage), w)
            | None \<Rightarrow>
               (case pi_submit x of
                  Raised \<Rightarrow> (Exited (Caught RequestException), w)
                | Response c b \<Rightarrow>
                    if c \<noteq> 200 then (Exited (PiSubmitHttpError c), w)
                    else (case b of
                            NotJson \<Rightarrow> (Exited (Caught JSONDecodeError), w)
                          | Json d \<Rightarrow>
                              if sub_code d \<noteq> Some 200 then (Exited (SubmitApiError (sub_code d)), w)
                              else if \<not> truthy (sub_task_id d) then (Exited PiNoTaskId, w)
                              else pi_poll (pi_rest x) (pi_replies x) w))))"

section \<open>runway_gen2.py\<close>

datatype rw_exit =
    RwNoImage
  | RwNoApiKey
  | RwSubmitHttpError int
  | RwNoVideo
  | RwSaved
  | RwUncaught error

text \<open>The reply of the one POST carries the decoded \<^verbatim>\<open>video\<close> bytes, when the key is there.\<close>

record rw_run =
  rw_image_is_file :: bool
  rw_api_key :: "string option"
  rw_submit :: "string option json http"
  rw_disk :: disk

definition rw_main :: "rw_run \<Rightarrow> world \<Rightarrow> rw_exit run \<times> world" where
  "rw_main x w =
     (if \<not> rw_image_is_file x then (Exited RwNoImage, w)
      else if \<not> truthy (rw_api_key x) then (Exited RwNoApiKey, w)
      else (case rw_submit x of
              Raised \<Rightarrow> (Exited (RwUncaught RequestException), w)
            | Response c b \<Rightarrow>
                if c \<noteq> 200 then (Exited (RwSubmitHttpError c), w)
                else (case b of
                        NotJson \<Rightarrow> (Exited (RwUncaught JSONDecodeError), w)
                      | Json v \<Rightarrow>
                          (case v of
                             None \<Rightarrow> (Exited RwNoVideo, w)
                           | Some video_data \<Rightarrow>
                               (case write_file (rw_disk x) video_data (out_file w) of
                                  (Some e, f') \<Rightarrow> (Exited (RwUncaught e), w\<lparr>out_file := f'\<rparr>)
                                | (None, f') \<Rightarrow> (Exited RwSaved, w\<lparr>out_file := f'\<rparr>))))))"

section \<open>Replies that keep a loop polling\<close>

text \<open>
  The replies on which the loop of minMax_hailuo.py reaches its last branch
  (\<^verbatim>\<open>time.sleep(args.poll_interval)\<close>): the query returned, the first test
  (\<^verbatim>\<open>status == "Success" and file_id\<close>) and the second
  (\<^verbatim>\<open>status in ["Fail", "Error", "Unknown"]\<close>) both failed.
\<close>

definition mm_transient :: "query_data json http \<Rightarrow> bool" where
  "mm_transient r =
     (case query_video_generation r of
        Inl e \<Rightarrow> False
      | Inr (file_id, status) \<Rightarrow>
          \<not> (status = ''Success'' \<and> truthy file_id) \<and>
          status \<notin> set [''Fail'', ''Error'', ''Unknown''])"

text \<open>
  The replies on which the loop of piapi_kling.py goes round again: one of the two
  \<^verbatim>\<open>continue\<close> statements, or the last \<^verbatim>\<open>else\<close> branch when its loop over the logs raises
  nothing.
\<close>

definition pi_transient :: "task_data json http \<Rightarrow> bool" where
  "pi_transient r =
     (case r of
        Raised \<Rightarrow> False
      | Response c b \<Rightarrow>
          c \<noteq> 200 \<or>
          (case b of
             NotJson \<Rightarrow> False
           | Json d \<Rightarrow>
               pi_code d \<noteq> Some 200 \<or>
               (lower (dict_get (pi_status d) '''') \<notin> set [''completed'', ''Completed'', ''failed''] \<and>
                logs_progress (pi_logs d) = None)))"

text \<open>
  The replies on which the loop of piapi_kling.py takes one of its two \<^verbatim>\<open>continue\<close>
  statements: the HTTP status is not 200, or the \<^verbatim>\<open>code\<close> of the body is not 200.
\<close>

definition pi_query_failed :: "task_data json http \<Rightarrow> bool" where
  "pi_query_failed r =
     (case r of
        Raised \<Rightarrow> False
      | Response c b \<Rightarrow>
          c \<noteq> 200 \<or> (case b of NotJson \<Rightarrow> False | Json d \<Rightarrow> pi_code d \<noteq> Some 200))"

text \<open>
  The replies on which the loop of piapi_kling.py takes its \<^verbatim>\<open>break\<close>: both codes are 200
  and the lower-case status passes the test of line 205.
\<close>

definition pi_completed :: "task_data json http \<Rightarrow> bool" where
  "pi_completed r =
     (case r of
        Raised \<Rightarrow> False
      | Response c b \<Rightarrow>
          c = 200 \<and>
          (case b of
             NotJson \<Rightarrow> False
           | Json d \<Rightarrow>
               pi_code d = Some 200 \<and>
               lower (dict_get (pi_status d) '''') \<in> set [''completed'', ''Completed'']))"

text \<open>A reply of the MiniMax status endpoint with HTTP 200 and the given fields.\<close>

definition mm_reply :: "string \<Rightarrow> string option \<Rightarrow> string \<Rightarrow> query_data json http" where
  "mm_reply status file_id rest =
     Response 200 (Json \<lparr>mm_status = Some status, mm_file_id = file_id, mm_rest = rest\<rparr>)"

text \<open>
  A reply of the PiAPI task endpoint with HTTP 200, code 200, the given status and, where
  stated, the given logs; no error object and no video URL.
\<close>

definition pi_reply_logs :: "string \<Rightarrow> py option \<Rightarrow> task_data json http" where
  "pi_reply_logs status logs =
     Response 200 (Json \<lparr>pi_code = Some 200, pi_status = Some status,
       pi_error_code = None, pi_error_message = None, pi_error_raw = None,
       pi_error_detail = None, pi_logs = logs, pi_video_url = None\<rparr>)"

definition pi_reply :: "string \<Rightarrow> task_data json http" where
  "pi_reply status = pi_reply_logs status None"

text \<open>A run of minMax_hailuo.py that gets past submission, and one of piapi_kling.py.\<close>

definition mm_submitted ::
  "(nat \<Rightarrow> bool) \<Rightarrow> int \<Rightarrow> fetch_env \<Rightarrow> query_data json http list \<Rightarrow> mm_run" where
  "mm_submitted clock poll_interval env replies =
     \<lparr>mm_api_key = Some ''key'', mm_image_is_file = True, mm_poll_interval = poll_interval,
      mm_clock = clock, mm_submit = Response 200 (Json (Some ''abc123'')),
      mm_replies = replies, mm_fetch = env\<rparr>"

text \<open>A clock with room for every deadline.\<close>

definition clock_fine :: "nat \<Rightarrow> bool" where
  "clock_fine n = True"

definition pi_submitted :: "pi_env \<Rightarrow> task_data json http list \<Rightarrow> pi_run" where
  "pi_submitted env replies =
     \<lparr>pi_api_key = Some ''key'', pi_image = None,
      pi_submit = Response 200 (Json \<lparr>sub_code = Some 200, sub_task_id = Some ''abc123''\<rparr>),
      pi_replies = replies, pi_rest = env\<rparr>"

text \<open>The world before a run: no output file, nothing polled, nothing slept.\<close>

definition w0 :: world where
  "w0 = \<lparr>out_file = None, poll_count = 0, slept = 0\<rparr>"

text \<open>Download answers used in the examples: every request succeeds, the disk is sound.\<close>

definition fetch_ok :: fetch_env where
  "fetch_ok = \<lparr>retrieve = Response 200 (Json (Some ''https://cdn/v.mp4'')),
               download = Response 200 ''video'', disk = DiskOk\<rparr>"

definition pi_ok :: pi_env where
  "pi_ok = \<lparr>pi_final = Response 200 (Json \<lparr>pi_code = Some 200, pi_status = Some ''completed'',
               pi_error_code = None, pi_error_message = None, pi_error_raw = None,
               pi_error_detail = None, pi_logs = None,
               pi_video_url = Some ''https://cdn/v.mp4''\<rparr>),
            pi_download = Response 200 ''video'', pi_disk = DiskOk\<rparr>"

section \<open>Lemmas on the two loops\<close>

lemma time_sleep_returns:
  "0 \<le> secs \<Longrightarrow> secs \<le> 9223372036 \<Longrightarrow> clock_ok \<Longrightarrow> time_sleep clock_ok secs = None"
  by (simp add: time_sleep_def)

lemma mm_poll_step:
  "mm_transient r \<Longrightarrow> time_sleep (clock (poll_count w + 1)) iv = None \<Longrightarrow>
   mm_poll clock iv env (r # rs) w =
   mm_poll clock iv env rs (w\<lparr>poll_count := poll_count w + 1, slept := slept w + iv\<rparr>)"
  by (auto simp: mm_transient_def Let_def split: sum.splits prod.splits)

lemma mm_poll_sleep_raises:
  "mm_transient r \<Longrightarrow> time_sleep (clock (poll_count w + 1)) iv = Some e \<Longrightarrow>
   mm_poll clock iv env (r # rs) w = (Exited (Uncaught e), w\<lparr>poll_count := poll_count w + 1\<rparr>)"
  by (auto simp: mm_transient_def Let_def split: sum.splits prod.splits)

lemma mm_poll_transient:
  "\<forall>r\<in>set pre. mm_transient r \<Longrightarrow> 0 \<le> iv \<Longrightarrow> iv \<le> 9223372036 \<Longrightarrow> \<forall>n. clock n \<Longrightarrow>
   mm_poll clock iv env (pre @ rs) w =
   mm_poll clock iv env rs
     (w\<lparr>poll_count := poll_count w + length pre, slept := slept w + int (length pre) * iv\<rparr>)"
proof (induction pre arbitrary: w)
  case Nil
  show ?case by simp
next
  case (Cons r pre)
  have s: "time_sleep (clock (poll_count w + 1)) iv = None"
    using Cons.prems by (simp add: time_sleep_returns)
  let ?w = "w\<lparr>poll_count := poll_count w + 1, slept := slept w + iv\<rparr>"
  have t: "mm_transient r" and ts: "\<forall>x\<in>set pre. mm_transient x"
    using Cons.prems(1) by simp_all
  have "mm_poll clock iv env ((r # pre) @ rs) w = mm_poll clock iv env (pre @ rs) ?w"
    using mm_poll_step [where clock = clock and w = w, OF t s] by simp
  also have "\<dots> = mm_poll clock iv env rs
     (?w\<lparr>poll_count := poll_count ?w + length pre, slept := slept ?w + int (length pre) * iv\<rparr>)"
    by (rule Cons.IH [OF ts Cons.prems(2) Cons.prems(3) Cons.prems(4)])
  also have "\<dots> = mm_poll clock iv env rs
     (w\<lparr>poll_count := poll_count w + length (r # pre),
        slept := slept w + int (length (r # pre)) * iv\<rparr>)"
    by (simp add: algebra_simps)
  finally show ?case .
qed

lemma pi_poll_step:
  "pi_transient r \<Longrightarrow>
   pi_poll env (r # rs) w =
   pi_poll env rs (w\<lparr>poll_count := poll_count w + 1, slept := slept w + 5\<rparr>)"
  by (auto simp: pi_transient_def Let_def split: http.splits json.splits)

lemma pi_poll_transient:
  "\<forall>r\<in>set pre. pi_transient r \<Longrightarrow>
   pi_poll env (pre @ rs) w =
   pi_poll env rs
     (w\<lparr>poll_count := poll_count w + length pre, slept := slept w + 5 * int (length pre)\<rparr>)"
proof (induction pre arbitrary: w)
  case Nil
  show ?case by simp
next
  case (Cons r pre)
  have "pi_poll env ((r # pre) @ rs) w =
        pi_poll env (pre @ rs) (w\<lparr>poll_count := poll_count w + 1, slept := slept w + 5\<rparr>)"
    using Cons.prems by (simp add: pi_poll_step del: pi_poll.simps)
  also have "\<dots> = pi_poll env rs
     (w\<lparr>poll_count := poll_count w + length (r # pre),
        slept := slept w + 5 * int (length (r # pre))\<rparr>)"
    using Cons.prems by (simp add: Cons.IH algebra_simps del: pi_poll.simps)
  finally show ?case .
qed

lemma mm_main_submitted:
  "mm_main (mm_submitted clock iv env rs) w = mm_poll clock iv env rs w"
  by (simp add: mm_main_def mm_submitted_def truthy_def)

lemma pi_main_submitted:
  "pi_main (pi_submitted env rs) w = pi_poll env rs w"
  by (simp add: pi_main_def pi_submitted_def truthy_def)


lemma dict_get_Some: "dict_get (Some x) d = x"
  by (simp add: dict_get_def)

lemma lower_char_not_upper_C: "lower_char c \<noteq> CHR ''C''"
  by (simp add: lower_char_def)

lemma lower_not_Completed: "lower s \<noteq> ''Completed''"
  by (cases s) (simp_all add: lower_def lower_char_not_upper_C)

lemma logs_progress_absent: "logs_progress None = None"
  by (simp add: logs_progress_def py_iter_def dict_get_def)


lemma mm_transient_reply:
  "mm_transient (mm_reply st fid rest) =
     (\<not> (st = ''Success'' \<and> truthy (Some (dict_get fid ''''))) \<and>
      st \<notin> set [''Fail'', ''Error'', ''Unknown''])"
  by (auto simp: mm_transient_def mm_reply_def query_video_generation_def dict_get_def Let_def)

lemma pi_transient_reply_logs:
  "pi_transient (pi_reply_logs st logs) =
     (lower st \<notin> set [''completed'', ''failed''] \<and> logs_progress logs = None)"
  by (simp add: pi_transient_def pi_reply_logs_def dict_get_def lower_not_Completed)

lemma pi_transient_reply:
  "pi_transient (pi_reply st) = (lower st \<notin> set [''completed'', ''failed''])"
  by (simp add: pi_reply_def pi_transient_reply_logs logs_progress_absent)

lemma mm_poll_terminal:
  "\<not> mm_transient t \<Longrightarrow>
   \<exists>x. fst (mm_poll clock iv env (t # rest) w) = Exited x \<and>
       poll_count (snd (mm_poll clock iv env (t # rest) w)) = poll_count w + 1"
  by (auto simp: mm_transient_def Let_def split: sum.splits prod.splits)

lemma pi_finish_exits:
  "\<exists>x. fst (pi_finish penv w) = Exited x \<and>
       poll_count (snd (pi_finish penv w)) = poll_count w + 1"
  by (auto simp: pi_finish_def Let_def split: http.splits json.splits prod.splits option.splits)

lemma pi_poll_terminal:
  "\<not> pi_transient t \<Longrightarrow>
   \<exists>x. fst (pi_poll penv (t # rest) w) = Exited x \<and>
       poll_count (snd (pi_poll penv (t # rest) w)) =
         poll_count w + (if pi_completed t then 2 else 1)"
  using pi_finish_exits [of penv "w\<lparr>poll_count := poll_count w + 1, slept := slept w + 5\<rparr>"]
  by (auto simp: pi_transient_def pi_completed_def Let_def lower_not_Completed
      split: http.splits json.splits option.splits)

lemma pi_finish_not_failed:
  "fst (pi_finish penv v) \<noteq> Exited (TaskFailed a b c e)"
  by (auto simp: pi_finish_def Let_def split: http.splits json.splits prod.splits option.splits)


text \<open>One tick on a reply that does not keep the loop polling.\<close>

lemma pi_poll_last:
  assumes "\<not> pi_transient p"
  shows "(pi_completed p \<and>
            pi_poll penv (p # ps) w =
              pi_finish penv (w\<lparr>poll_count := poll_count w + 1, slept := slept w + 5\<rparr>))
       \<or> (\<exists>e. fst (pi_poll penv (p # ps) w) = Exited (Caught e))
       \<or> (\<exists>d. p = Response 200 (Json d) \<and> pi_code d = Some 200 \<and>
             lower (dict_get (pi_status d) '''') = ''failed'' \<and>
             fst (pi_poll penv (p # ps) w) =
               Exited (TaskFailed
                 (dict_get (pi_error_code d) ''No error code'')
                 (dict_get (pi_error_message d) ''No error message'')
                 (dict_get (pi_error_raw d) ''No raw error message'')
                 (dict_get (pi_error_detail d) ''No error details'')))"
proof (cases p)
  case Raised
  then show ?thesis by simp
next
  case (Response c b)
  show ?thesis
  proof (cases b)
    case NotJson
    then show ?thesis using Response assms by (simp add: pi_transient_def)
  next
    case (Json d)
    have c: "c = 200" and k: "pi_code d = Some 200"
      using assms Response Json by (auto simp: pi_transient_def)
    show ?thesis
    proof (cases "lower (dict_get (pi_status d) '''') = ''completed''")
      case True
      then show ?thesis
        using Response Json c k by (simp add: pi_completed_def Let_def)
    next
      case nc: False
      show ?thesis
      proof (cases "lower (dict_get (pi_status d) '''') = ''failed''")
        case True
        then show ?thesis
          using Response Json c k nc
          by (cases "logs_print (pi_logs d)") (simp_all add: Let_def lower_not_Completed)
      next
        case False
        then obtain e where "logs_progress (pi_logs d) = Some e"
          using assms Response Json c k nc
          by (auto simp: pi_transient_def lower_not_Completed)
        then show ?thesis
          using Response Json c k nc False by (simp add: Let_def lower_not_Completed)
      qed
    qed
  qed
qed

text \<open>One tick of minMax_hailuo.py on a reply that does not send the loop to sleep.\<close>

lemma query_failure_no_locator:
  "query_video_generation q = Inr (file_id, status) \<Longrightarrow> status \<noteq> ''Success'' \<Longrightarrow>
   file_id = None"
  by (auto simp: query_video_generation_def Let_def split: http.splits json.splits if_splits)

lemma mm_poll_last:
  assumes "\<not> mm_transient q"
  shows "(\<exists>e. fst (mm_poll clock iv env (q # qs) w) = Exited (Uncaught e))
       \<or> (\<exists>fid. query_video_generation q = Inr (fid, ''Success'') \<and> truthy fid \<and>
             (fst (mm_poll clock iv env (q # qs) w) = Exited Saved \<or>
              fst (mm_poll clock iv env (q # qs) w) = Exited FetchFailed))
       \<or> (\<exists>s. query_video_generation q = Inr (None, s) \<and>
             s \<in> set [''Fail'', ''Error'', ''Unknown''] \<and>
             fst (mm_poll clock iv env (q # qs) w) = Exited (GenerationFailed s))"
proof (cases "query_video_generation q")
  case (Inl e)
  then show ?thesis by simp
next
  case (Inr p)
  obtain fid st where p: "p = (fid, st)"
    by (cases p)
  show ?thesis
  proof (cases "st = ''Success'' \<and> truthy fid")
    case True
    obtain res f' where f: "fetch_video_result env (dict_get fid '''')
        (out_file (w\<lparr>poll_count := poll_count w + 1\<rparr>)) = (res, f')"
      by (cases "fetch_video_result env (dict_get fid '''')
        (out_file (w\<lparr>poll_count := poll_count w + 1\<rparr>))")
    show ?thesis
      using Inr p True f by (cases res) (simp_all add: Let_def)
  next
    case False
    then have s: "st \<in> set [''Fail'', ''Error'', ''Unknown'']"
      using assms Inr p by (simp add: mm_transient_def)
    then have "st \<noteq> ''Success''"
      by auto
    then have "fid = None"
      using Inr p query_failure_no_locator by blast
    then show ?thesis
      using Inr p s by (simp add: Let_def truthy_def)
  qed
qed




lemma mm_exit_after_status:
  assumes "fst (mm_poll clock iv env qs w) = Exited x"
    and "x = FetchFailed \<or> x = Saved \<or> x = GenerationFailed s"
  shows "\<exists>q\<in>set qs.
     (x = GenerationFailed s \<and> s \<in> set [''Fail'', ''Error'', ''Unknown''] \<and>
        query_video_generation q = Inr (None, s))
     \<or> (x \<noteq> GenerationFailed s \<and>
        (\<exists>fid. query_video_generation q = Inr (fid, ''Success'') \<and> truthy fid))"
  using assms(1)
proof (induction qs arbitrary: w)
  case Nil
  then show ?case by simp
next
  case (Cons q qs)
  let ?w = "w\<lparr>poll_count := poll_count w + 1, slept := slept w + iv\<rparr>"
  show ?case
  proof (cases "mm_transient q")
    case True
    show ?thesis
    proof (cases "time_sleep (clock (poll_count w + 1)) iv")
      case None
      then have "fst (mm_poll clock iv env qs ?w) = Exited x"
        using Cons.prems True by (simp add: mm_poll_step del: mm_poll.simps)
      from Cons.IH [OF this] show ?thesis by auto
    next
      case (Some e)
      then have "fst (mm_poll clock iv env (q # qs) w) = Exited (Uncaught e)"
        using True by (simp add: mm_poll_sleep_raises del: mm_poll.simps)
      then show ?thesis
        using Cons.prems assms(2) by auto
    qed
  next
    case False
    from mm_poll_last [OF False, of clock iv env qs w] Cons.prems assms(2)
    have "(x = GenerationFailed s \<and> s \<in> set [''Fail'', ''Error'', ''Unknown''] \<and>
        query_video_generation q = Inr (None, s))
     \<or> (x \<noteq> GenerationFailed s \<and>
        (\<exists>fid. query_video_generation q = Inr (fid, ''Success'') \<and> truthy fid))"
      by auto
    then show ?thesis by auto
  qed
qed

lemma pi_delivery_after_completed:
  assumes "fst (pi_poll penv ps w) = Exited x"
    and "x = FinalHttpError c \<or> x = NoVideoUrl \<or> x = DownloadHttpError c \<or> x = PiSaved"
  shows "\<exists>t\<in>set ps. pi_completed t"
  using assms(1)
proof (induction ps arbitrary: w)
  case Nil
  then show ?case by simp
next
  case (Cons p ps)
  let ?w = "w\<lparr>poll_count := poll_count w + 1, slept := slept w + 5\<rparr>"
  show ?case
  proof (cases "pi_transient p")
    case True
    then have "fst (pi_poll penv ps ?w) = Exited x"
      using Cons.prems by (simp add: pi_poll_step del: pi_poll.simps)
    from Cons.IH [OF this] show ?thesis by auto
  next
    case False
    from pi_poll_last [OF False, of penv ps w] Cons.prems assms(2)
    have "pi_completed p"
      by auto
    then show ?thesis by simp
  qed
qed

section \<open>The claims\<close>

subsection \<open>C1: maximum wait\<close>

text \<open>
  C1 as the specification states it: once the configured maximum wait has elapsed without
  a terminal state the poller stops with a timeout; with a maximum wait of 30 s, a poll
  interval of 10 s and every poll answering Processing, the run fails with a timeout
  after three ticks. Neither script has a maximum wait. In that scenario the run of
  minMax_hailuo.py is still polling after three ticks and 30 s of sleep, and takes a
  fourth tick.
\<close>

theorem C1_timeout_counterexample:
  "mm_main (mm_submitted clock_fine 10 fetch_ok
      [mm_reply ''Processing'' None '''', mm_reply ''Processing'' None '''',
       mm_reply ''Processing'' None '''']) w0 =
     (Polling, \<lparr>out_file = None, poll_count = 3, slept = 30\<rparr>)
   \<and> mm_main (mm_submitted clock_fine 10 fetch_ok
      [mm_reply ''Processing'' None '''', mm_reply ''Processing'' None '''',
       mm_reply ''Processing'' None '''', mm_reply ''Processing'' None '''']) w0 =
     (Polling, \<lparr>out_file = None, poll_count = 4, slept = 40\<rparr>)"
  by (simp add: mm_main_def mm_submitted_def mm_reply_def query_video_generation_def
      time_sleep_def clock_fine_def truthy_def dict_get_def w0_def)

text \<open>
  C1, amended: neither script bounds the time it waits. As long as every reply is one
  that keeps the loop polling (a reply with status Processing, and in piapi_kling.py no
  logs, is one), the run has not ended after any number of replies, whatever time it has
  slept, and the output file is as it was. In minMax_hailuo.py this needs every
  \<^verbatim>\<open>time.sleep(args.poll_interval)\<close> to return: the interval is between 0 and
  9223372036 seconds and each deadline is in the range of the platform's clock; the run
  has then slept one interval per reply. In piapi_kling.py it has slept five seconds per
  reply.
\<close>

theorem C1_no_timeout:
  assumes "\<forall>r\<in>set rs. mm_transient r"
    and "0 \<le> iv" and "iv \<le> 9223372036" and "\<forall>n. clock n"
    and "\<forall>r\<in>set ps. pi_transient r"
  shows "mm_main (mm_submitted clock iv env rs) w =
           (Polling, w\<lparr>poll_count := poll_count w + length rs,
                       slept := slept w + int (length rs) * iv\<rparr>)
       \<and> pi_main (pi_submitted penv ps) w =
           (Polling, w\<lparr>poll_count := poll_count w + length ps,
                       slept := slept w + 5 * int (length ps)\<rparr>)
       \<and> mm_transient (mm_reply ''Processing'' fid rest)
       \<and> pi_transient (pi_reply ''Processing'')"
proof (intro conjI)
  show "mm_main (mm_submitted clock iv env rs) w =
           (Polling, w\<lparr>poll_count := poll_count w + length rs,
                       slept := slept w + int (length rs) * iv\<rparr>)"
    using mm_poll_transient [OF assms(1) assms(2) assms(3) assms(4), of env "[]" w]
    by (simp add: mm_main_submitted)
  show "pi_main (pi_submitted penv ps) w =
           (Polling, w\<lparr>poll_count := poll_count w + length ps,
                       slept := slept w + 5 * int (length ps)\<rparr>)"
    using pi_poll_transient [OF assms(5), of penv "[]" w]
    by (simp add: pi_main_submitted)
  show "mm_transient (mm_reply ''Processing'' fid rest)"
    by (simp add: mm_transient_reply)
  show "pi_transient (pi_reply ''Processing'')"
    by (simp add: pi_transient_reply lower_def lower_char_def)
qed

theorem C1_no_timeout_witness:
  "mm_main (mm_submitted clock_fine 10 fetch_ok
        (replicate 5 (mm_reply ''Processing'' None ''''))) w0 =
     (Polling, \<lparr>out_file = None, poll_count = 5, slept = 50\<rparr>)
   \<and> pi_main (pi_submitted pi_ok (replicate 7 (pi_reply ''Processing''))) w0 =
     (Polling, \<lparr>out_file = None, poll_count = 7, slept = 35\<rparr>)"
proof -
  have a: "\<forall>r\<in>set (replicate 5 (mm_reply ''Processing'' None '''')). mm_transient r"
    by (simp add: mm_transient_reply)
  have b: "(0::int) \<le> 10" and b': "(10::int) \<le> 9223372036"
    by simp_all
  have k: "\<forall>n. clock_fine n"
    by (simp add: clock_fine_def)
  have c: "\<forall>r\<in>set (replicate 7 (pi_reply ''Processing'')). pi_transient r"
    by (simp add: pi_transient_reply lower_def lower_char_def)
  show ?thesis
    using C1_no_timeout [OF a b b' k c, of fetch_ok w0 pi_ok] by (simp add: w0_def)
qed

subsection \<open>C2: failed status queries\<close>

text \<open>
  C2 as the specification states it: a status query that fails transiently is retried a
  bounded number of times, and beyond the bound the job is escalated to Failed. In
  piapi_kling.py no bound exists: four failed queries in a row leave the run polling,
  and so does any number of them.
\<close>

theorem C2_retry_bound_counterexample:
  "pi_main (pi_submitted pi_ok
      [Response 500 NotJson, Response 500 NotJson, Response 500 NotJson, Response 500 NotJson]) w0 =
     (Polling, \<lparr>out_file = None, poll_count = 4, slept = 20\<rparr>)
   \<and> \<not> (\<exists>B. fst (pi_main (pi_submitted pi_ok (replicate (Suc B) (Response 500 NotJson))) w0) \<noteq> Polling)"
proof
  show "pi_main (pi_submitted pi_ok
      [Response 500 NotJson, Response 500 NotJson, Response 500 NotJson, Response 500 NotJson]) w0 =
     (Polling, \<lparr>out_file = None, poll_count = 4, slept = 20\<rparr>)"
    by (simp add: pi_main_def pi_submitted_def truthy_def w0_def)
  have "fst (pi_main (pi_submitted pi_ok (replicate (Suc B) (Response 500 NotJson))) w0) = Polling" for B
  proof -
    have "\<forall>r\<in>set (replicate (Suc B) (Response 500 NotJson)). pi_transient r"
      by (simp add: pi_transient_def)
    from pi_poll_transient [OF this, of pi_ok "[]" w0] show ?thesis
      by (simp add: pi_main_submitted)
  qed
  then show "\<not> (\<exists>B. fst (pi_main (pi_submitted pi_ok (replicate (Suc B) (Response 500 NotJson))) w0) \<noteq> Polling)"
    by simp
qed

text \<open>
  C2, amended: a failed status query is never retried within a tick and no retry is
  counted. In minMax_hailuo.py a status query answered with an HTTP status other than
  200 ends the run on that tick as a generation failure with status "Error", after one
  query and no sleep, whatever the server would have answered next; a query that raises
  ends the run with the exception. In piapi_kling.py a query answered with an HTTP
  status other than 200, or with a body whose \<^verbatim>\<open>code\<close> is not 200, is followed by the next
  tick (five seconds of sleep, one query) without any bound: after any number of such
  replies the run is still polling.
\<close>

theorem C2_failed_status_query:
  assumes "c \<noteq> 200" and "\<forall>r\<in>set ps. pi_query_failed r"
  shows "mm_main (mm_submitted clock iv env (Response c b # rs)) w =
           (Exited (GenerationFailed ''Error''), w\<lparr>poll_count := poll_count w + 1\<rparr>)
       \<and> mm_main (mm_submitted clock iv env (Raised # rs)) w =
           (Exited (Uncaught RequestException), w\<lparr>poll_count := poll_count w + 1\<rparr>)
       \<and> pi_main (pi_submitted penv ps) w =
           (Polling, w\<lparr>poll_count := poll_count w + length ps,
                       slept := slept w + 5 * int (length ps)\<rparr>)"
proof (intro conjI)
  show "mm_main (mm_submitted clock iv env (Response c b # rs)) w =
           (Exited (GenerationFailed ''Error''), w\<lparr>poll_count := poll_count w + 1\<rparr>)"
    using assms(1) by (simp add: mm_main_submitted query_video_generation_def)
  show "mm_main (mm_submitted clock iv env (Raised # rs)) w =
           (Exited (Uncaught RequestException), w\<lparr>poll_count := poll_count w + 1\<rparr>)"
    by (simp add: mm_main_submitted query_video_generation_def)
  have "\<forall>r\<in>set ps. pi_transient r"
    using assms(2) by (auto simp: pi_query_failed_def pi_transient_def split: http.splits json.splits)
  from pi_poll_transient [OF this, of penv "[]" w]
  show "pi_main (pi_submitted penv ps) w =
           (Polling, w\<lparr>poll_count := poll_count w + length ps,
                       slept := slept w + 5 * int (length ps)\<rparr>)"
    by (simp add: pi_main_submitted)
qed

theorem C2_failed_status_query_witness:
  "mm_main (mm_submitted clock_fine 10 fetch_ok
      [Response 503 NotJson, mm_reply ''Success'' (Some ''f1'') '''']) w0 =
     (Exited (GenerationFailed ''Error''), \<lparr>out_file = None, poll_count = 1, slept = 0\<rparr>)
   \<and> mm_main (mm_submitted clock_fine 10 fetch_ok
      [Raised, mm_reply ''Success'' (Some ''f1'') '''']) w0 =
     (Exited (Uncaught RequestException), \<lparr>out_file = None, poll_count = 1, slept = 0\<rparr>)
   \<and> pi_main (pi_submitted pi_ok (replicate 9 (Response 503 NotJson))) w0 =
     (Polling, \<lparr>out_file = None, poll_count = 9, slept = 45\<rparr>)"
proof -
  have a: "(503::int) \<noteq> 200"
    by simp
  have b: "\<forall>r\<in>set (replicate 9 (Response 503 NotJson)). pi_query_failed r"
    by (simp add: pi_query_failed_def)
  show ?thesis
    using C2_failed_status_query [OF a b, where clock = clock_fine and iv = 10
        and env = fetch_ok and b = NotJson and rs = "[mm_reply ''Success'' (Some ''f1'') '''']"
        and w = w0 and penv = pi_ok]
    by (simp add: w0_def)
qed

subsection \<open>C3: statuses outside the vocabulary\<close>




subsection \<open>C4: the output file after a failed fetch\<close>




subsection \<open>C5: locator, error detail and status\<close>




subsection \<open>C6: number of status queries\<close>

text \<open>
  C6 as the specification states it: the number of status queries of a run never exceeds
  ceil(maxWait / pollInterval) + retryBudget. The scripts have neither a maximum wait nor
  a retry budget, and no number bounds the queries of a run: six Processing replies are
  six queries, and \<open>n\<close> of them are \<open>n\<close> queries.
\<close>

theorem C6_query_bound_counterexample:
  "mm_main (mm_submitted clock_fine 10 fetch_ok
        (replicate 6 (mm_reply ''Processing'' None ''''))) w0 =
     (Polling, \<lparr>out_file = None, poll_count = 6, slept = 60\<rparr>)
   \<and> \<not> (\<exists>B. \<forall>n. poll_count (snd (mm_main
         (mm_submitted clock_fine 10 fetch_ok
            (replicate n (mm_reply ''Processing'' None ''''))) w0)) \<le> B)"
proof -
  have t: "\<forall>r\<in>set (replicate n (mm_reply ''Processing'' None '''')). mm_transient r" for n
    by (simp add: mm_transient_reply)
  have k: "\<forall>n. clock_fine n"
    by (simp add: clock_fine_def)
  have run: "mm_main (mm_submitted clock_fine 10 fetch_ok
        (replicate n (mm_reply ''Processing'' None ''''))) w0 =
     (Polling, \<lparr>out_file = None, poll_count = n, slept = int n * 10\<rparr>)" for n
    using mm_poll_transient [OF t [of n] _ _ k, where iv = 10 and env = fetch_ok and rs = "[]"
        and w = w0]
    by (simp add: mm_main_submitted w0_def)
  have "\<exists>n. \<not> poll_count (snd (mm_main
         (mm_submitted clock_fine 10 fetch_ok
            (replicate n (mm_reply ''Processing'' None ''''))) w0)) \<le> B" for B
    by (rule exI [of _ "Suc B"]) (simp add: run del: replicate.simps)
  then show ?thesis
    using run [of 6] by simp
qed

text \<open>
  C6, amended: when the first reply that does not keep the loop polling is the \<open>k\<close>-th,
  the run ends on it and minMax_hailuo.py has issued exactly \<open>k\<close> status queries,
  provided every \<^verbatim>\<open>time.sleep(args.poll_interval)\<close> on the way returns (the interval is
  between 0 and 9223372036 seconds and each deadline is in the range of the platform's
  clock); piapi_kling.py has issued \<open>k\<close> queries in its loop, and one more GET of the
  status URL when that reply says completed, to read the video URL. No query is ever
  retried. There is no upper bound: while the replies keep the loop polling, the number
  of queries is the number of replies.
\<close>

theorem C6_query_count:
  assumes "\<forall>r\<in>set pre. mm_transient r" and "\<not> mm_transient t"
    and "0 \<le> iv" and "iv \<le> 9223372036" and "\<forall>n. clock n"
    and "\<forall>r\<in>set ppre. pi_transient r" and "\<not> pi_transient pt"
  shows "(\<exists>x. fst (mm_poll clock iv env (pre @ t # rest) w) = Exited x)
       \<and> poll_count (snd (mm_poll clock iv env (pre @ t # rest) w)) = poll_count w + length pre + 1
       \<and> (\<exists>x. fst (pi_poll penv (ppre @ pt # prest) w) = Exited x)
       \<and> poll_count (snd (pi_poll penv (ppre @ pt # prest) w)) =
           poll_count w + length ppre + (if pi_completed pt then 2 else 1)
       \<and> poll_count (snd (mm_poll clock iv env pre w)) = poll_count w + length pre
       \<and> poll_count (snd (pi_poll penv ppre w)) = poll_count w + length ppre"
proof -
  let ?w = "w\<lparr>poll_count := poll_count w + length pre,
               slept := slept w + int (length pre) * iv\<rparr>"
  let ?v = "w\<lparr>poll_count := poll_count w + length ppre,
               slept := slept w + 5 * int (length ppre)\<rparr>"
  note tr = mm_poll_transient [OF assms(1) assms(3) assms(4) assms(5)]
  have m: "mm_poll clock iv env (pre @ t # rest) w = mm_poll clock iv env (t # rest) ?w"
    by (rule tr)
  have p: "pi_poll penv (ppre @ pt # prest) w = pi_poll penv (pt # prest) ?v"
    by (rule pi_poll_transient [OF assms(6)])
  have m0: "mm_poll clock iv env pre w = (Polling, ?w)"
    using tr [of env "[]" w] by simp
  have p0: "pi_poll penv ppre w = (Polling, ?v)"
    using pi_poll_transient [OF assms(6), of penv "[]" w] by simp
  show ?thesis
    using mm_poll_terminal [OF assms(2), of clock iv env rest ?w]
      pi_poll_terminal [OF assms(7), of penv prest ?v]
    unfolding m p m0 p0 by simp
qed

theorem C6_query_count_witness:
  "(\<exists>x. fst (mm_poll clock_fine 10 fetch_ok
        ([mm_reply ''Queueing'' None '''', mm_reply ''Processing'' None ''''] @
         mm_reply ''Success'' (Some ''f1'') '''' # [mm_reply ''Fail'' None '''']) w0) = Exited x)
   \<and> poll_count (snd (mm_poll clock_fine 10 fetch_ok
        ([mm_reply ''Queueing'' None '''', mm_reply ''Processing'' None ''''] @
         mm_reply ''Success'' (Some ''f1'') '''' # [mm_reply ''Fail'' None '''']) w0)) = 3
   \<and> (\<exists>x. fst (pi_poll pi_ok ([pi_reply ''pending''] @ pi_reply ''completed'' # []) w0) = Exited x)
   \<and> poll_count (snd (pi_poll pi_ok ([pi_reply ''pending''] @ pi_reply ''completed'' # []) w0)) = 3"
proof -
  have a: "\<forall>r\<in>set [mm_reply ''Queueing'' None '''', mm_reply ''Processing'' None '''']. mm_transient r"
    by (simp add: mm_transient_reply)
  have b: "\<not> mm_transient (mm_reply ''Success'' (Some ''f1'') '''')"
    by (simp add: mm_transient_reply truthy_def dict_get_Some)
  have c: "(0::int) \<le> 10" and c': "(10::int) \<le> 9223372036"
    by simp_all
  have k: "\<forall>n. clock_fine n"
    by (simp add: clock_fine_def)
  have d: "\<forall>r\<in>set [pi_reply ''pending'']. pi_transient r"
    by (simp add: pi_transient_reply lower_def lower_char_def)
  have e: "\<not> pi_transient (pi_reply ''completed'')"
    by (simp add: pi_transient_reply lower_def lower_char_def)
  have f: "pi_completed (pi_reply ''completed'')"
    by (simp add: pi_completed_def pi_reply_def pi_reply_logs_def lower_def lower_char_def
        dict_get_Some)
  show ?thesis
    using C6_query_count [OF a b c c' k d e, of fetch_ok "[mm_reply ''Fail'' None '''']" w0
        pi_ok "[]"] f
    by (simp add: w0_def del: mm_poll.simps pi_poll.simps)
qed

subsection \<open>C7: a submission that fails\<close>

text \<open>
  C7: when the submission is answered with an HTTP status other than 200 (401 for a bad
  credential, 400 for a bad request), each of the three scripts ends at once, reporting
  that status code, and the world is as it was before: no status query was issued,
  nothing was slept, no file was written, whatever the server would have answered to a
  status query. The same holds when the submission is refused inside a 200 answer
  (no task id; in piapi_kling.py a \<^verbatim>\<open>code\<close> other than 200).
\<close>

theorem C7_submit_failure_aborts:
  assumes "c \<noteq> 200"
  shows "(truthy (mm_api_key x) \<longrightarrow> mm_image_is_file x \<longrightarrow> mm_submit x = Response c b \<longrightarrow>
            mm_main x w = (Exited (SubmitHttpError c), w))
       \<and> (truthy (pi_api_key y) \<longrightarrow> pi_image y = None \<longrightarrow> pi_submit y = Response c pb \<longrightarrow>
            pi_main y w = (Exited (PiSubmitHttpError c), w))
       \<and> (truthy (rw_api_key z) \<longrightarrow> rw_image_is_file z \<longrightarrow> rw_submit z = Response c rb \<longrightarrow>
            rw_main z w = (Exited (RwSubmitHttpError c), w))
       \<and> (truthy (mm_api_key x) \<longrightarrow> mm_image_is_file x \<longrightarrow>
            mm_submit x = Response 200 (Json task_id) \<longrightarrow> \<not> truthy task_id \<longrightarrow>
            mm_main x w = (Exited NoTaskId, w))
       \<and> (truthy (pi_api_key y) \<longrightarrow> pi_image y = None \<longrightarrow>
            pi_submit y = Response 200 (Json d) \<longrightarrow> sub_code d \<noteq> Some 200 \<longrightarrow>
            pi_main y w = (Exited (SubmitApiError (sub_code d)), w))"
  using assms by (simp add: mm_main_def pi_main_def rw_main_def)

theorem C7_submit_failure_aborts_witness:
  "mm_main ((mm_submitted clock_fine 10 fetch_ok [mm_reply ''Success'' (Some ''f1'') ''''])
       \<lparr>mm_submit := Response 401 NotJson\<rparr>) w0 = (Exited (SubmitHttpError 401), w0)
   \<and> pi_main ((pi_submitted pi_ok [pi_reply ''completed''])
       \<lparr>pi_submit := Response 401 NotJson\<rparr>) w0 = (Exited (PiSubmitHttpError 401), w0)
   \<and> rw_main \<lparr>rw_image_is_file = True, rw_api_key = Some ''key'',
        rw_submit = Response 401 NotJson, rw_disk = DiskOk\<rparr> w0 =
       (Exited (RwSubmitHttpError 401), w0)
   \<and> mm_main ((mm_submitted clock_fine 10 fetch_ok [mm_reply ''Success'' (Some ''f1'') ''''])
       \<lparr>mm_submit := Response 200 (Json None)\<rparr>) w0 = (Exited NoTaskId, w0)
   \<and> pi_main ((pi_submitted pi_ok [pi_reply ''completed''])
       \<lparr>pi_submit := Response 200 (Json \<lparr>sub_code = Some 401, sub_task_id = None\<rparr>)\<rparr>) w0 =
       (Exited (SubmitApiError (Some 401)), w0)"
proof -
  have a: "(401::int) \<noteq> 200"
    by simp
  note m = C7_submit_failure_aborts [OF a,
      where x = "(mm_submitted clock_fine 10 fetch_ok [mm_reply ''Success'' (Some ''f1'') ''''])
                   \<lparr>mm_submit := Response 401 NotJson\<rparr>"
        and b = NotJson and w = w0
        and y = "(pi_submitted pi_ok [pi_reply ''completed''])\<lparr>pi_submit := Response 401 NotJson\<rparr>"
        and pb = NotJson
        and z = "\<lparr>rw_image_is_file = True, rw_api_key = Some ''key'',
                   rw_submit = Response 401 NotJson, rw_disk = DiskOk\<rparr>"
        and rb = NotJson]
  note n = C7_submit_failure_aborts [OF a,
      where x = "(mm_submitted clock_fine 10 fetch_ok [mm_reply ''Success'' (Some ''f1'') ''''])
                   \<lparr>mm_submit := Response 200 (Json None)\<rparr>"
        and task_id = None and w = w0
        and y = "(pi_submitted pi_ok [pi_reply ''completed''])
                   \<lparr>pi_submit := Response 200 (Json \<lparr>sub_code = Some 401, sub_task_id = None\<rparr>)\<rparr>"
        and d = "\<lparr>sub_code = Some 401, sub_task_id = None\<rparr>"]
  show ?thesis
    using m n by (simp add: mm_submitted_def pi_submitted_def truthy_def)
qed

subsection \<open>C8: a fetch that fails after generation succeeded\<close>

text \<open>
  C8 as the specification states it: a fetch that fails after generation succeeded is
  reported as a result-unavailable error of its own, the state staying Succeeded, and
  the final outcome tells this delivery error from other failures. The scripts keep no
  job state and have no such error. When the fetch raises, the run ends exactly as it
  does when a status query raises before any success was reported: in minMax_hailuo.py
  with the same exception and the same world, in piapi_kling.py in the same handler with
  the same exception. Nothing in the outcome says that the result could not be
  delivered.
\<close>

theorem C8_delivery_error_counterexample:
  "mm_main (mm_submitted clock_fine 10 (fetch_ok\<lparr>retrieve := Raised\<rparr>)
      [mm_reply ''Success'' (Some ''f1'') '''']) w0 =
     (Exited (Uncaught RequestException), \<lparr>out_file = None, poll_count = 1, slept = 0\<rparr>)
   \<and> mm_main (mm_submitted clock_fine 10 fetch_ok [Raised]) w0 =
     (Exited (Uncaught RequestException), \<lparr>out_file = None, poll_count = 1, slept = 0\<rparr>)
   \<and> fst (pi_main (pi_submitted (pi_ok\<lparr>pi_download := Raised\<rparr>) [pi_reply ''completed'']) w0) =
     Exited (Caught RequestException)
   \<and> fst (pi_main (pi_submitted pi_ok [Raised]) w0) = Exited (Caught RequestException)"
  by (simp add: mm_main_def mm_submitted_def mm_reply_def query_video_generation_def
      fetch_video_result_def fetch_ok_def pi_main_def pi_submitted_def pi_reply_def
      pi_reply_logs_def pi_finish_def pi_ok_def lower_def lower_char_def truthy_def
      dict_get_def w0_def)

text \<open>
  C8, amended: when a status query has reported success (status "Success" with a file id
  in minMax_hailuo.py, a completed status in piapi_kling.py) and the fetch of the result
  then fails, the run ends without a saved video and never on the exit of a generation
  failure. In minMax_hailuo.py it ends on the \<^verbatim>\<open>break\<close> of line 231 when
  \<^verbatim>\<open>fetch_video_result\<close> returned \<^verbatim>\<open>False\<close>, an exit reached only after a reply with status
  "Success" and a file id, whereas the exit of a generation failure is reached only after
  one of the statuses "Fail", "Error", "Unknown"; when the fetch raises, the run ends with
  that exception. In piapi_kling.py the run goes on with the lines after the loop, which
  never end on the exit of a failed task; their own three exits (final result not
  fetched, no video URL, download refused) are reached only after a completed status.
  (An exception raised by the fetch ends the run as any other exception does; the scripts
  record no state and no kind of error.)
\<close>

theorem C8_fetch_failure_exits:
  "(query_video_generation r = Inr (file_id, ''Success'') \<longrightarrow> truthy file_id \<longrightarrow>
      fst (fetch_video_result env (dict_get file_id '''') (out_file w)) \<noteq> Inr True \<longrightarrow>
      fst (mm_poll clock iv env (r # rs) w) =
        (case fst (fetch_video_result env (dict_get file_id '''') (out_file w)) of
           Inl e \<Rightarrow> Exited (Uncaught e)
         | Inr ok \<Rightarrow> Exited FetchFailed)
      \<and> fst (mm_poll clock iv env (r # rs) w) \<noteq> Exited Saved
      \<and> fst (mm_poll clock iv env (r # rs) w) \<noteq> Exited (GenerationFailed s)
      \<and> poll_count (snd (mm_poll clock iv env (r # rs) w)) = poll_count w + 1)
   \<and> (fst (mm_poll clock iv env qs w) = Exited FetchFailed \<longrightarrow>
      (\<exists>q\<in>set qs. \<exists>fid. query_video_generation q = Inr (fid, ''Success'') \<and> truthy fid))
   \<and> (fst (mm_poll clock iv env qs w) = Exited (GenerationFailed s) \<longrightarrow>
      s \<in> set [''Fail'', ''Error'', ''Unknown''] \<and>
      (\<exists>q\<in>set qs. query_video_generation q = Inr (None, s)))
   \<and> (pi_completed p \<longrightarrow>
      pi_poll penv (p # ps) w =
        pi_finish penv (w\<lparr>poll_count := poll_count w + 1, slept := slept w + 5\<rparr>)
      \<and> fst (pi_poll penv (p # ps) w) \<noteq> Exited (TaskFailed a b c d))
   \<and> (fst (pi_poll penv ts w) = Exited (FinalHttpError k) \<or>
       fst (pi_poll penv ts w) = Exited NoVideoUrl \<or>
       fst (pi_poll penv ts w) = Exited (DownloadHttpError k) \<longrightarrow>
      (\<exists>t\<in>set ts. pi_completed t))"
proof -
  have 1: "query_video_generation r = Inr (file_id, ''Success'') \<longrightarrow> truthy file_id \<longrightarrow>
      fst (fetch_video_result env (dict_get file_id '''') (out_file w)) \<noteq> Inr True \<longrightarrow>
      fst (mm_poll clock iv env (r # rs) w) =
        (case fst (fetch_video_result env (dict_get file_id '''') (out_file w)) of
           Inl e \<Rightarrow> Exited (Uncaught e)
         | Inr ok \<Rightarrow> Exited FetchFailed)
      \<and> fst (mm_poll clock iv env (r # rs) w) \<noteq> Exited Saved
      \<and> fst (mm_poll clock iv env (r # rs) w) \<noteq> Exited (GenerationFailed s)
      \<and> poll_count (snd (mm_poll clock iv env (r # rs) w)) = poll_count w + 1"
    by (auto simp: Let_def split: sum.splits prod.splits)
  have 2: "fst (mm_poll clock iv env qs w) = Exited FetchFailed \<longrightarrow>
      (\<exists>q\<in>set qs. \<exists>fid. query_video_generation q = Inr (fid, ''Success'') \<and> truthy fid)"
  proof
    assume "fst (mm_poll clock iv env qs w) = Exited FetchFailed"
    from mm_exit_after_status [OF this, of s]
    show "\<exists>q\<in>set qs. \<exists>fid. query_video_generation q = Inr (fid, ''Success'') \<and> truthy fid"
      by auto
  qed
  have 3: "fst (mm_poll clock iv env qs w) = Exited (GenerationFailed s) \<longrightarrow>
      s \<in> set [''Fail'', ''Error'', ''Unknown''] \<and>
      (\<exists>q\<in>set qs. query_video_generation q = Inr (None, s))"
  proof
    assume "fst (mm_poll clock iv env qs w) = Exited (GenerationFailed s)"
    from mm_exit_after_status [OF this, of s]
    obtain q where "q \<in> set qs" "s \<in> set [''Fail'', ''Error'', ''Unknown'']"
      "query_video_generation q = Inr (None, s)"
      by auto
    then show "s \<in> set [''Fail'', ''Error'', ''Unknown''] \<and>
      (\<exists>q\<in>set qs. query_video_generation q = Inr (None, s))"
      by auto
  qed
  have 4: "pi_completed p \<longrightarrow>
      pi_poll penv (p # ps) w =
        pi_finish penv (w\<lparr>poll_count := poll_count w + 1, slept := slept w + 5\<rparr>)
      \<and> fst (pi_poll penv (p # ps) w) \<noteq> Exited (TaskFailed a b c d)"
  proof
    assume "pi_completed p"
    then have "pi_poll penv (p # ps) w =
        pi_finish penv (w\<lparr>poll_count := poll_count w + 1, slept := slept w + 5\<rparr>)"
      by (auto simp: pi_completed_def Let_def split: http.splits json.splits)
    then show "pi_poll penv (p # ps) w =
        pi_finish penv (w\<lparr>poll_count := poll_count w + 1, slept := slept w + 5\<rparr>)
      \<and> fst (pi_poll penv (p # ps) w) \<noteq> Exited (TaskFailed a b c d)"
      using pi_finish_not_failed by simp
  qed
  have 5: "fst (pi_poll penv ts w) = Exited (FinalHttpError k) \<or>
       fst (pi_poll penv ts w) = Exited NoVideoUrl \<or>
       fst (pi_poll penv ts w) = Exited (DownloadHttpError k) \<longrightarrow>
      (\<exists>t\<in>set ts. pi_completed t)"
    using pi_delivery_after_completed [of penv ts w _ k] by blast
  show ?thesis
    by (intro conjI) (fact 1, fact 2, fact 3, fact 4, fact 5)
qed

theorem C8_fetch_failure_exits_witness:
  "fst (mm_poll clock_fine 10 (fetch_ok\<lparr>download := Response 404 ''''\<rparr>)
         [mm_reply ''Success'' (Some ''f1'') ''x''] w0) = Exited FetchFailed
   \<and> poll_count (snd (mm_poll clock_fine 10 (fetch_ok\<lparr>download := Response 404 ''''\<rparr>)
         [mm_reply ''Success'' (Some ''f1'') ''x''] w0)) = 1
   \<and> (\<exists>q\<in>set [mm_reply ''Success'' (Some ''f1'') ''x''].
         \<exists>fid. query_video_generation q = Inr (fid, ''Success'') \<and> truthy fid)
   \<and> fst (pi_poll (pi_ok\<lparr>pi_download := Response 404 ''''\<rparr>) [pi_reply ''completed''] w0) =
       Exited (DownloadHttpError 404)
   \<and> (\<exists>t\<in>set [pi_reply ''completed'']. pi_completed t)"
proof -
  let ?env = "fetch_ok\<lparr>download := Response 404 ''''\<rparr>"
  let ?penv = "pi_ok\<lparr>pi_download := Response 404 ''''\<rparr>"
  have q: "query_video_generation (mm_reply ''Success'' (Some ''f1'') ''x'') =
             Inr (Some ''f1'', ''Success'')"
    by (simp add: mm_reply_def query_video_generation_def dict_get_def)
  have t: "truthy (Some ''f1'')"
    by (simp add: truthy_def)
  have f: "fst (fetch_video_result ?env (dict_get (Some ''f1'') '''') (out_file w0)) = Inr False"
    by (simp add: fetch_video_result_def fetch_ok_def dict_get_def)
  have c: "pi_completed (pi_reply ''completed'')"
    by (simp add: pi_completed_def pi_reply_def pi_reply_logs_def lower_def lower_char_def
        dict_get_Some)
  have g: "pi_finish ?penv (w0\<lparr>poll_count := poll_count w0 + 1, slept := slept w0 + 5\<rparr>) =
             (Exited (DownloadHttpError 404), \<lparr>out_file = None, poll_count = 2, slept = 5\<rparr>)"
    by (simp add: pi_finish_def pi_ok_def truthy_def w0_def)
  note th = C8_fetch_failure_exits
      [where r = "mm_reply ''Success'' (Some ''f1'') ''x''" and file_id = "Some ''f1''"
         and env = ?env and w = w0 and clock = clock_fine and iv = 10 and rs = "[]"
         and qs = "[mm_reply ''Success'' (Some ''f1'') ''x'']"
         and p = "pi_reply ''completed''" and penv = ?penv and ps = "[]"
         and ts = "[pi_reply ''completed'']" and k = 404]
  have m1: "fst (mm_poll clock_fine 10 ?env [mm_reply ''Success'' (Some ''f1'') ''x''] w0) =
      Exited FetchFailed"
    and m2: "poll_count (snd (mm_poll clock_fine 10 ?env
      [mm_reply ''Success'' (Some ''f1'') ''x''] w0)) = 1"
    using th [THEN conjunct1] q t f by (simp_all add: w0_def del: mm_poll.simps)
  have m3: "\<exists>q\<in>set [mm_reply ''Success'' (Some ''f1'') ''x''].
         \<exists>fid. query_video_generation q = Inr (fid, ''Success'') \<and> truthy fid"
    using m1 by (rule th [THEN conjunct2, THEN conjunct1, THEN mp])
  have p1: "fst (pi_poll ?penv [pi_reply ''completed''] w0) = Exited (DownloadHttpError 404)"
    using th [THEN conjunct2, THEN conjunct2, THEN conjunct2, THEN conjunct1] c g
    by (simp del: pi_poll.simps)
  have p2: "\<exists>t\<in>set [pi_reply ''completed'']. pi_completed t"
    using p1
    by (intro th [THEN conjunct2, THEN conjunct2, THEN conjunct2, THEN conjunct2, THEN mp]) simp
  show ?thesis
    using m1 m2 m3 p1 p2 by (intro conjI)
qed

subsection \<open>C9: a failure reported by the provider\<close>




subsection \<open>C10: Success without a file id\<close>




end
